theory Spec2Isabelle
  imports Main
begin

section \<open>Data model\<close>

text \<open>
  The ORM classes of \<^verbatim>\<open>src/entity/models.py\<close> are not among the sources; the records below
  carry the columns that the routes, the repository and the tests read and write.
  A variable that holds an email address is written \<open>email_addr\<close> (\<open>email\<close> is the field).
  Field \<^verbatim>\<open>id\<close> is written \<open>id_user\<close> / \<open>id_contact\<close> (HOL has a constant \<open>id\<close>); the
  foreign key of a contact to its owner is \<open>user_id\<close>. The columns \<^verbatim>\<open>created_at\<close> and
  \<^verbatim>\<open>updated_at\<close> are maintained by the database and no function below reads or assigns them.
\<close>

datatype Role = Role_admin | Role_moderator | Role_user

text \<open>A calendar date, as \<^verbatim>\<open>datetime.date\<close>: year, month, day.\<close>

record date =
  year :: nat
  month :: nat
  day :: nat

text \<open>\<^verbatim>\<open>TokenSchema\<close>, the response model of login and refresh.\<close>

record TokenSchema =
  access_token :: string
  refresh_token :: string
  token_type :: string

record User =
  id_user :: int
  username :: string
  email :: string
  password :: string
  refresh_token :: "string option"
  role :: Role
  confirmed :: bool

text \<open>\<^verbatim>\<open>ContactSchema\<close> (src/schemas/contact.py) is the request body; a stored contact has the
  same six fields plus its primary key and its owner.\<close>

record ContactSchema =
  firstname :: string
  lastname :: string
  email :: string
  phone :: string
  birthday :: date
  additional_data :: string

record Contact = ContactSchema +
  id_contact :: int
  user_id :: int

text \<open>The database session: the two tables, in row order.\<close>

record database =
  users :: "User list"
  contacts :: "Contact list"

text \<open>
  The detail of an \<^verbatim>\<open>HTTPException\<close> is a literal string of the route or one of the
  constants of \<^verbatim>\<open>src/conf/messages.py\<close>; that module is not among the sources, so its
  constants stay symbolic.
\<close>

datatype detail =
    Detail string
  | ACCOUNT_EXIST
  | INVALID_EMAIL
  | EMAIL_NOT_CONFIRMED
  | INVALID_PASSWORD
  | FORBIDDEN

text \<open>
  What a handler can raise: an \<^verbatim>\<open>HTTPException\<close> with its status code, or an exception
  that no handler catches (the framework answers 500).
\<close>

datatype error =
    HTTPException nat detail
  | AttributeError
  | MultipleResultsFound
  | OverflowError

section \<open>Contact repository (src/repository/contacts.py)\<close>

text \<open>\<^verbatim>\<open>Result.scalar_one_or_none()\<close>: no row gives \<^verbatim>\<open>None\<close>, one row gives it, more raise.\<close>

definition scalar_one_or_none :: "'a list \<Rightarrow> error + 'a option" where
  "scalar_one_or_none rows =
     (case rows of
        [] \<Rightarrow> Inr None
      | [r] \<Rightarrow> Inr (Some r)
      | _ \<Rightarrow> Inl MultipleResultsFound)"

text \<open>\<^verbatim>\<open>select(Contact).filter_by(id=contact_id, user=user)\<close>\<close>

definition select_contact :: "int \<Rightarrow> database \<Rightarrow> User \<Rightarrow> Contact list" where
  "select_contact contact_id db user =
     filter (\<lambda>c. id_contact c = contact_id \<and> user_id c = id_user user) (contacts db)"

definition get_contacts :: "nat \<Rightarrow> nat \<Rightarrow> database \<Rightarrow> User \<Rightarrow> Contact list" where
  "get_contacts limit offset db user =
     take limit (drop offset (filter (\<lambda>c. user_id c = id_user user) (contacts db)))"

definition get_all_contacts :: "nat \<Rightarrow> nat \<Rightarrow> database \<Rightarrow> Contact list" where
  "get_all_contacts limit offset db = take limit (drop offset (contacts db))"

definition get_contact :: "int \<Rightarrow> database \<Rightarrow> User \<Rightarrow> error + Contact option" where
  "get_contact contact_id db user = scalar_one_or_none (select_contact contact_id db user)"

text \<open>The five assignments of \<^verbatim>\<open>update_contact\<close>.\<close>

definition assign_body :: "ContactSchema \<Rightarrow> Contact \<Rightarrow> Contact" where
  "assign_body body contact =
     contact\<lparr>firstname := firstname body,
             lastname := lastname body,
             ContactSchema.email := ContactSchema.email body,
             phone := phone body,
             birthday := birthday body\<rparr>"

text \<open>
  \<^verbatim>\<open>update_contact\<close> and \<^verbatim>\<open>delete_contact\<close> return the contact (or an error) and the
  database after the call. The commit writes the row of the selected primary key.
\<close>

definition update_contact ::
  "int \<Rightarrow> ContactSchema \<Rightarrow> database \<Rightarrow> User \<Rightarrow> (error + Contact option) \<times> database" where
  "update_contact contact_id body db user =
     (case scalar_one_or_none (select_contact contact_id db user) of
        Inl e \<Rightarrow> (Inl e, db)
      | Inr None \<Rightarrow> (Inr None, db)
      | Inr (Some contact) \<Rightarrow>
          (Inr (Some (assign_body body contact)),
           db\<lparr>contacts :=
                map (\<lambda>c. if id_contact c = id_contact contact then assign_body body c else c)
                  (contacts db)\<rparr>))"

definition delete_contact ::
  "int \<Rightarrow> database \<Rightarrow> User \<Rightarrow> (error + Contact option) \<times> database" where
  "delete_contact contact_id db user =
     (case scalar_one_or_none (select_contact contact_id db user) of
        Inl e \<Rightarrow> (Inl e, db)
      | Inr None \<Rightarrow> (Inr None, db)
      | Inr (Some contact) \<Rightarrow>
          (Inr (Some contact),
           db\<lparr>contacts := filter (\<lambda>c. id_contact c \<noteq> id_contact contact) (contacts db)\<rparr>))"

section \<open>Contact routes (src/routes/contacts.py)\<close>

text \<open>
  Every handler receives the principal that \<^verbatim>\<open>auth_service.get_current_user\<close> resolved.
  A handler returns its outcome and the database after the request.
\<close>

definition NOT_FOUND :: error where
  "NOT_FOUND = HTTPException 404 (Detail ''NOT FOUND'')"

definition or_404 :: "error + 'a option \<Rightarrow> error + 'a" where
  "or_404 r = (case r of Inl e \<Rightarrow> Inl e | Inr None \<Rightarrow> Inl NOT_FOUND | Inr (Some c) \<Rightarrow> Inr c)"

definition get_contacts_route ::
  "nat \<Rightarrow> nat \<Rightarrow> database \<Rightarrow> User \<Rightarrow> (error + Contact list) \<times> database" where
  "get_contacts_route limit offset db user = (Inr (get_contacts limit offset db user), db)"

definition get_contact_route :: "int \<Rightarrow> database \<Rightarrow> User \<Rightarrow> (error + Contact) \<times> database" where
  "get_contact_route contact_id db user = (or_404 (get_contact contact_id db user), db)"

definition update_contact_route ::
  "ContactSchema \<Rightarrow> int \<Rightarrow> database \<Rightarrow> User \<Rightarrow> (error + Contact) \<times> database" where
  "update_contact_route body contact_id db user =
     (case update_contact contact_id body db user of (r, db') \<Rightarrow> (or_404 r, db'))"

definition delete_contact_route :: "int \<Rightarrow> database \<Rightarrow> User \<Rightarrow> (error + Contact) \<times> database" where
  "delete_contact_route contact_id db user =
     (case delete_contact contact_id db user of (r, db') \<Rightarrow> (or_404 r, db'))"

section \<open>Search (src/repository/contacts.py)\<close>

text \<open>
  \<^verbatim>\<open>Contact.firstname.ilike(pattern)\<close> is evaluated by the database server; the operator is
  a parameter \<open>ilike value pattern\<close>. The pattern is the f-string \<^verbatim>\<open>f"%{query}%"\<close>.
  The parameter \<open>user\<close> is received and not used, as in the source.
\<close>

definition search_contacts ::
  "(string \<Rightarrow> string \<Rightarrow> bool) \<Rightarrow> string \<Rightarrow> database \<Rightarrow> User \<Rightarrow> Contact list" where
  "search_contacts ilike query db user =
     filter
       (\<lambda>c. ilike (firstname c) (''%'' @ query @ ''%'')
          \<or> ilike (lastname c) (''%'' @ query @ ''%'')
          \<or> ilike (ContactSchema.email c) (''%'' @ query @ ''%''))
       (contacts db)"

subsection \<open>Calendar dates\<close>

definition is_leap :: "nat \<Rightarrow> bool" where
  "is_leap y = (y mod 4 = 0 \<and> (y mod 100 \<noteq> 0 \<or> y mod 400 = 0))"

definition days_in_month :: "nat \<Rightarrow> nat \<Rightarrow> nat" where
  "days_in_month y m =
     (if m = 2 then (if is_leap y then 29 else 28)
      else if m = 4 \<or> m = 6 \<or> m = 9 \<or> m = 11 then 30
      else 31)"

text \<open>The month and day that a \<^verbatim>\<open>datetime.date\<close> can hold; the bound on the year is
  checked where a date is computed (\<open>date_plus_days\<close>).\<close>

definition valid_date :: "date \<Rightarrow> bool" where
  "valid_date d =
     (1 \<le> month d \<and> month d \<le> 12 \<and> 1 \<le> day d \<and> day d \<le> days_in_month (year d) (month d))"

text \<open>Comparison of dates is comparison of (year, month, day).\<close>

definition date_le :: "date \<Rightarrow> date \<Rightarrow> bool" where
  "date_le a b =
     (year a < year b
      \<or> (year a = year b \<and> (month a < month b \<or> (month a = month b \<and> day a \<le> day b))))"

definition next_day :: "date \<Rightarrow> date" where
  "next_day d =
     (if day d < days_in_month (year d) (month d) then d\<lparr>day := day d + 1\<rparr>
      else if month d < 12 then d\<lparr>month := month d + 1, day := 1\<rparr>
      else d\<lparr>year := year d + 1, month := 1, day := 1\<rparr>)"

fun add_days :: "nat \<Rightarrow> date \<Rightarrow> date" where
  "add_days 0 d = d"
| "add_days (Suc n) d = add_days n (next_day d)"

text \<open>\<^verbatim>\<open>date + timedelta(days=n)\<close>: the date n days later, \<^verbatim>\<open>OverflowError\<close> past year 9999.\<close>

definition date_plus_days :: "date \<Rightarrow> nat \<Rightarrow> error + date" where
  "date_plus_days d n =
     (let r = add_days n d in if 9999 < year r then Inl OverflowError else Inr r)"

text \<open>\<^verbatim>\<open>search_by_birthday\<close>; \<open>today\<close> is what \<^verbatim>\<open>date.today()\<close> returns.\<close>

definition search_by_birthday :: "date \<Rightarrow> database \<Rightarrow> User \<Rightarrow> error + Contact list" where
  "search_by_birthday today db user =
     (case date_plus_days today 7 of
        Inl e \<Rightarrow> Inl e
      | Inr end_day \<Rightarrow>
          Inr (filter (\<lambda>c. date_le today (birthday c) \<and> date_le (birthday c) end_day)
                 (contacts db)))"

text \<open>
  The window in the words of the specification: today and the seven days after it.
\<close>

definition within_next_7_days :: "date \<Rightarrow> date \<Rightarrow> bool" where
  "within_next_7_days today b = (b \<in> set (map (\<lambda>k. add_days k today) [0..<8]))"

section \<open>Role gate\<close>

text \<open>
  Modelled from the spec: \<^verbatim>\<open>RoleAccess\<close> of \<^verbatim>\<open>src/services/roles.py\<close> is not among the
  sources. Section 4.4: \<^verbatim>\<open>authorize(principal, allowed_roles)\<close> is a pure function of the
  principal's role and the allow-list, and fails with Forbidden.
\<close>

definition RoleAccess :: "Role list \<Rightarrow> User \<Rightarrow> error + unit" where
  "RoleAccess allowed_roles user =
     (if role user \<in> set allowed_roles then Inr () else Inl (HTTPException 403 FORBIDDEN))"

definition access_to_route_all :: "User \<Rightarrow> error + unit" where
  "access_to_route_all = RoleAccess [Role_admin, Role_moderator]"

text \<open>\<^verbatim>\<open>GET /contacts/all\<close>: the dependency \<open>access_to_route_all\<close> runs before the handler.\<close>

definition get_all_contacts_route ::
  "nat \<Rightarrow> nat \<Rightarrow> database \<Rightarrow> User \<Rightarrow> (error + Contact list) \<times> database" where
  "get_all_contacts_route limit offset db user =
     (case access_to_route_all user of
        Inl e \<Rightarrow> (Inl e, db)
      | Inr _ \<Rightarrow> (Inr (get_all_contacts limit offset db), db))"

section \<open>User repository\<close>

text \<open>
  Modelled from the spec: \<^verbatim>\<open>get_user_by_email\<close> of \<^verbatim>\<open>src/repository/users.py\<close> is not
  among the sources. Section 4.3: the principal is looked up by email, and may be absent;
  section 3: the email of a principal is unique.
\<close>

definition get_user_by_email :: "string \<Rightarrow> database \<Rightarrow> User option" where
  "get_user_by_email email_addr db = find (\<lambda>u. User.email u = email_addr) (users db)"

text \<open>
  Modelled from the spec: \<^verbatim>\<open>update_token\<close> of \<^verbatim>\<open>src/repository/users.py\<close> is not among
  the sources. Sections 3 and 4.3: the refresh token (or null) is persisted on the principal.
\<close>

definition update_token :: "User \<Rightarrow> string option \<Rightarrow> database \<Rightarrow> database" where
  "update_token user token db =
     db\<lparr>users :=
          map (\<lambda>u. if id_user u = id_user user then u\<lparr>User.refresh_token := token\<rparr> else u)
            (users db)\<rparr>"

text \<open>
  Modelled from the spec: \<^verbatim>\<open>confirmed_email\<close> of \<^verbatim>\<open>src/repository/users.py\<close> is not
  among the sources. Section 4.3: it sets confirmed=true on the principal of that email.
\<close>

definition confirmed_email :: "string \<Rightarrow> database \<Rightarrow> database" where
  "confirmed_email email_addr db =
     db\<lparr>users :=
          map (\<lambda>u. if User.email u = email_addr then u\<lparr>confirmed := True\<rparr> else u) (users db)\<rparr>"

section \<open>Authentication routes (src/routes/auth.py)\<close>

text \<open>
  \<^verbatim>\<open>auth_service\<close> (src/services/auth.py) is not among the sources: the password check and
  the token codec are parameters of the routes. A token is issued and verified at a time,
  the first argument (seconds); verification fails with an error or yields the subject's
  email.
\<close>

record auth_service =
  verify_password :: "string \<Rightarrow> string \<Rightarrow> bool"
  create_access_token :: "nat \<Rightarrow> string \<Rightarrow> string"
  create_refresh_token :: "nat \<Rightarrow> string \<Rightarrow> string"
  decode_refresh_token :: "nat \<Rightarrow> string \<Rightarrow> error + string"
  get_email_from_token :: "nat \<Rightarrow> string \<Rightarrow> error + string"

text \<open>\<^verbatim>\<open>POST /auth/login\<close>; \<open>username\<close> and \<open>password\<close> are the two fields of the form.\<close>

definition login ::
  "auth_service \<Rightarrow> nat \<Rightarrow> string \<Rightarrow> string \<Rightarrow> database
     \<Rightarrow> (error + TokenSchema) \<times> database" where
  "login svc now body_username body_password db =
     (case get_user_by_email body_username db of
        None \<Rightarrow> (Inl (HTTPException 401 INVALID_EMAIL), db)
      | Some user \<Rightarrow>
          if \<not> confirmed user then (Inl (HTTPException 401 EMAIL_NOT_CONFIRMED), db)
          else if \<not> verify_password svc body_password (password user)
          then (Inl (HTTPException 401 INVALID_PASSWORD), db)
          else
            (let access = create_access_token svc now (User.email user);
                 refresh = create_refresh_token svc now (User.email user)
             in (Inr \<lparr>access_token = access, TokenSchema.refresh_token = refresh,
                       token_type = ''bearer''\<rparr>,
                 update_token user (Some refresh) db)))"

text \<open>
  \<^verbatim>\<open>GET /auth/refresh_token\<close>. The attribute \<^verbatim>\<open>user.refresh_token\<close> is read before any
  check that a user was found: on \<^verbatim>\<open>None\<close> the read raises \<^verbatim>\<open>AttributeError\<close>.
\<close>

definition refresh_token_route ::
  "auth_service \<Rightarrow> nat \<Rightarrow> string \<Rightarrow> database \<Rightarrow> (error + TokenSchema) \<times> database" where
  "refresh_token_route svc now token db =
     (case decode_refresh_token svc now token of
        Inl e \<Rightarrow> (Inl e, db)
      | Inr email_addr \<Rightarrow>
          (case get_user_by_email email_addr db of
             None \<Rightarrow> (Inl AttributeError, db)
           | Some user \<Rightarrow>
               if User.refresh_token user \<noteq> Some token
               then (Inl (HTTPException 401 (Detail ''Invalid refresh token'')),
                     update_token user None db)
               else
                 (let access = create_access_token svc now email_addr;
                      refresh = create_refresh_token svc now email_addr
                  in (Inr \<lparr>access_token = access, TokenSchema.refresh_token = refresh,
                            token_type = ''bearer''\<rparr>,
                      update_token user (Some refresh) db))))"

text \<open>\<^verbatim>\<open>GET /auth/confirmed_email/{token}\<close>; the reply is the text of its message.\<close>

definition confirmed_email_route ::
  "auth_service \<Rightarrow> nat \<Rightarrow> string \<Rightarrow> database \<Rightarrow> (error + string) \<times> database" where
  "confirmed_email_route svc now token db =
     (case get_email_from_token svc now token of
        Inl e \<Rightarrow> (Inl e, db)
      | Inr email_addr \<Rightarrow>
          (case get_user_by_email email_addr db of
             None \<Rightarrow> (Inl (HTTPException 400 (Detail ''Verification error'')), db)
           | Some user \<Rightarrow>
               if confirmed user then (Inr ''Your email is already confirmed'', db)
               else (Inr ''Email confirmed'', confirmed_email email_addr db)))"

text \<open>
  \<^verbatim>\<open>POST /auth/request_email\<close>. The reply is the message and the background tasks that
  were queued; a task is a call of \<^verbatim>\<open>send_email(email, username, base_url)\<close>.
  \<^verbatim>\<open>user.confirmed\<close> is read first (on \<^verbatim>\<open>None\<close> it raises \<^verbatim>\<open>AttributeError\<close>), the
  guard \<^verbatim>\<open>if user\<close> comes after it.
\<close>

datatype task = send_email string string string

definition request_email ::
  "string \<Rightarrow> string \<Rightarrow> database \<Rightarrow> (error + string \<times> task list) \<times> database" where
  "request_email body_email base_url db =
     (let user = get_user_by_email body_email db in
      case (case user of None \<Rightarrow> Inl AttributeError | Some u \<Rightarrow> Inr (confirmed u)) of
        Inl e \<Rightarrow> (Inl e, db)
      | Inr user_confirmed \<Rightarrow>
          if user_confirmed then (Inr (''Your email is already confirmed'', []), db)
          else
            (Inr (''Check your email for confirmation.'',
                  (case user of
                     Some u \<Rightarrow> [send_email (User.email u) (username u) base_url]
                   | None \<Rightarrow> [])),
             db))"

section \<open>Example data\<close>

text \<open>Two principals, each owning one contact, and a request body.\<close>

definition alice :: User where
  "alice = \<lparr>id_user = 1, username = ''alice'', User.email = ''alice@example.com'',
            password = ''hash-a'', User.refresh_token = None, role = Role_user,
            confirmed = True\<rparr>"

definition bob :: User where
  "bob = \<lparr>id_user = 2, username = ''bob'', User.email = ''bob@example.com'',
          password = ''hash-b'', User.refresh_token = None, role = Role_user,
          confirmed = True\<rparr>"

definition contact_of_alice :: Contact where
  "contact_of_alice = \<lparr>firstname = ''Ann'', lastname = ''Lee'', ContactSchema.email = ''ann@example.com'',
      phone = ''0671111111'', birthday = \<lparr>year = 2024, month = 6, day = 5\<rparr>,
      additional_data = ''friend'', id_contact = 1, user_id = 1\<rparr>"

definition contact_of_bob :: Contact where
  "contact_of_bob = \<lparr>firstname = ''Martin'', lastname = ''Bird'', ContactSchema.email = ''martin@example.com'',
      phone = ''0672222222'', birthday = \<lparr>year = 2024, month = 6, day = 10\<rparr>,
      additional_data = ''work'', id_contact = 2, user_id = 2\<rparr>"

definition two_tenants :: database where
  "two_tenants = \<lparr>users = [alice, bob], contacts = [contact_of_alice, contact_of_bob]\<rparr>"

definition new_body :: ContactSchema where
  "new_body = \<lparr>firstname = ''Dieter'', lastname = ''Dierks'', ContactSchema.email = ''dd@example.com'',
      phone = ''0673333333'', birthday = \<lparr>year = 2024, month = 1, day = 2\<rparr>,
      additional_data = ''changed''\<rparr>"

text \<open>An operator for the examples: a value matches the pattern that wraps it.\<close>

definition ilike_exact :: "string \<Rightarrow> string \<Rightarrow> bool" where
  "ilike_exact v pattern = (pattern = ''%'' @ v @ ''%'')"

text \<open>A codec for the examples, in the manner of a signed token whose time of issue is
  in whole time units: a token spells its intent, its subject and, in unary, the time of
  issue, so two tokens issued for one subject at one time are the same string. A refresh
  token is valid for 7 time units after its issue, a confirmation token for 3. A password
  hash is the password after \<open>hash-\<close>.\<close>

definition issued_at :: "string \<Rightarrow> nat" where
  "issued_at token = length (takeWhile (\<lambda>c. c = CHR ''I'') (rev token))"

definition example_service :: auth_service where
  "example_service =
     \<lparr>verify_password = (\<lambda>plain hashed. hashed = ''hash-'' @ plain),
      create_access_token = (\<lambda>now sub. ''access:'' @ sub @ '':'' @ replicate now (CHR ''I'')),
      create_refresh_token = (\<lambda>now sub. ''refresh:'' @ sub @ '':'' @ replicate now (CHR ''I'')),
      decode_refresh_token = (\<lambda>now token.
         if take 8 token \<noteq> ''refresh:''
         then Inl (HTTPException 401 (Detail ''Invalid scope for token''))
         else if issued_at token + 7 < now
         then Inl (HTTPException 401 (Detail ''Could not validate credentials''))
         else Inr (takeWhile (\<lambda>c. c \<noteq> CHR '':'') (drop 8 token))),
      get_email_from_token = (\<lambda>now token.
         if take 8 token \<noteq> ''confirm:''
         then Inl (HTTPException 422 (Detail ''Invalid token for email verification''))
         else if issued_at token + 3 < now
         then Inl (HTTPException 422 (Detail ''Invalid token for email verification''))
         else Inr (takeWhile (\<lambda>c. c \<noteq> CHR '':'') (drop 8 token)))\<rparr>"

definition carol :: User where
  "carol = \<lparr>id_user = 3, username = ''carol'', User.email = ''carol@example.com'',
            password = ''hash-c'', User.refresh_token = None, role = Role_user,
            confirmed = False\<rparr>"

definition three_users :: database where
  "three_users = \<lparr>users = [alice, bob, carol], contacts = [contact_of_alice, contact_of_bob]\<rparr>"

text \<open>The database after alice has logged in at time 0 with the example codec.\<close>

definition alice_logged_in :: database where
  "alice_logged_in =
     \<lparr>users = [alice\<lparr>User.refresh_token := Some ''refresh:alice@example.com:''\<rparr>, bob, carol],
      contacts = [contact_of_alice, contact_of_bob]\<rparr>"

section \<open>Owner scoping of the single-record operations\<close>

lemma select_contact_owned:
  "c \<in> set (select_contact contact_id db user) \<Longrightarrow>
     c \<in> set (contacts db) \<and> id_contact c = contact_id \<and> user_id c = id_user user"
  by (simp add: select_contact_def)

lemma scalar_one_or_none_Some:
  "scalar_one_or_none rows = Inr (Some r) \<Longrightarrow> rows = [r]"
  by (auto simp: scalar_one_or_none_def split: list.splits)

lemma select_contact_foreign:
  assumes "\<forall>c\<in>set (contacts db). id_contact c = contact_id \<longrightarrow> user_id c \<noteq> id_user user"
  shows "select_contact contact_id db user = []"
  using assms by (auto simp: select_contact_def filter_empty_conv)

lemma get_contact_owned:
  assumes "get_contact contact_id db user = Inr (Some c)"
  shows "c \<in> set (contacts db) \<and> id_contact c = contact_id \<and> user_id c = id_user user"
proof -
  from assms have "select_contact contact_id db user = [c]"
    unfolding get_contact_def by (rule scalar_one_or_none_Some)
  then have "c \<in> set (select_contact contact_id db user)" by simp
  then show ?thesis by (rule select_contact_owned)
qed

lemma or_404_Inr: "or_404 r = Inr c \<Longrightarrow> r = Inr (Some c)"
  by (auto simp: or_404_def split: sum.splits option.splits)

text \<open>
  Claim C1. For every principal and every contact id, what \<open>get_contact\<close>, \<open>update_contact\<close>
  and \<open>delete_contact\<close> return is a contact of that id owned by the principal. When a contact
  of that id exists and belongs to another principal, each of the three routes answers 404
  ``NOT FOUND'' (not 403, not the contact) and leaves the database as it was.
\<close>

theorem single_record_operations_owner_scoped:
  "(\<forall>c. fst (get_contact_route contact_id db user) = Inr c \<longrightarrow>
        c \<in> set (contacts db) \<and> id_contact c = contact_id \<and> user_id c = id_user user)
   \<and> (\<forall>c. fst (update_contact_route body contact_id db user) = Inr c \<longrightarrow>
        id_contact c = contact_id \<and> user_id c = id_user user)
   \<and> (\<forall>c. fst (delete_contact_route contact_id db user) = Inr c \<longrightarrow>
        c \<in> set (contacts db) \<and> id_contact c = contact_id \<and> user_id c = id_user user)
   \<and> ((\<exists>c\<in>set (contacts db). id_contact c = contact_id)
        \<and> (\<forall>c\<in>set (contacts db). id_contact c = contact_id \<longrightarrow> user_id c \<noteq> id_user user)
      \<longrightarrow> get_contact_route contact_id db user = (Inl (HTTPException 404 (Detail ''NOT FOUND'')), db)
        \<and> update_contact_route body contact_id db user
            = (Inl (HTTPException 404 (Detail ''NOT FOUND'')), db)
        \<and> delete_contact_route contact_id db user
            = (Inl (HTTPException 404 (Detail ''NOT FOUND'')), db))"
proof -
  let ?nf = "Inl (HTTPException 404 (Detail ''NOT FOUND''))"
  have p_get: "c \<in> set (contacts db) \<and> id_contact c = contact_id \<and> user_id c = id_user user"
    if "fst (get_contact_route contact_id db user) = Inr c" for c
  proof -
    from that have "get_contact contact_id db user = Inr (Some c)"
      by (simp add: get_contact_route_def or_404_Inr)
    then show ?thesis by (rule get_contact_owned)
  qed
  have p_upd: "id_contact c = contact_id \<and> user_id c = id_user user"
    if "fst (update_contact_route body contact_id db user) = Inr c" for c
  proof -
    from that have "fst (update_contact contact_id body db user) = Inr (Some c)"
      by (auto simp: update_contact_route_def or_404_Inr split: prod.splits)
    then obtain c0 where c0: "scalar_one_or_none (select_contact contact_id db user) = Inr (Some c0)"
      and c: "c = assign_body body c0"
      by (auto simp: update_contact_def split: sum.splits option.splits)
    from c0 have "get_contact contact_id db user = Inr (Some c0)" by (simp add: get_contact_def)
    from get_contact_owned[OF this] c show ?thesis by (simp add: assign_body_def)
  qed
  have p_del: "c \<in> set (contacts db) \<and> id_contact c = contact_id \<and> user_id c = id_user user"
    if "fst (delete_contact_route contact_id db user) = Inr c" for c
  proof -
    from that have "fst (delete_contact contact_id db user) = Inr (Some c)"
      by (auto simp: delete_contact_route_def or_404_Inr split: prod.splits)
    then have "get_contact contact_id db user = Inr (Some c)"
      by (auto simp: delete_contact_def get_contact_def split: sum.splits option.splits)
    then show ?thesis by (rule get_contact_owned)
  qed
  have p_foreign:
    "get_contact_route contact_id db user = (?nf, db)
     \<and> update_contact_route body contact_id db user = (?nf, db)
     \<and> delete_contact_route contact_id db user = (?nf, db)"
    if "\<forall>c\<in>set (contacts db). id_contact c = contact_id \<longrightarrow> user_id c \<noteq> id_user user"
  proof -
    from that have e: "select_contact contact_id db user = []"
      by (rule select_contact_foreign)
    show ?thesis
      by (simp add: get_contact_route_def get_contact_def update_contact_route_def
          update_contact_def delete_contact_route_def delete_contact_def e
          scalar_one_or_none_def or_404_def NOT_FOUND_def)
  qed
  from p_get p_upd p_del p_foreign show ?thesis by blast
qed

theorem single_record_operations_owner_scoped_witness:
  "get_contact_route 2 two_tenants alice = (Inl (HTTPException 404 (Detail ''NOT FOUND'')), two_tenants)
   \<and> update_contact_route new_body 2 two_tenants alice
       = (Inl (HTTPException 404 (Detail ''NOT FOUND'')), two_tenants)
   \<and> delete_contact_route 2 two_tenants alice
       = (Inl (HTTPException 404 (Detail ''NOT FOUND'')), two_tenants)
   \<and> fst (get_contact_route 2 two_tenants bob) = Inr contact_of_bob"
proof -
  have h: "(\<exists>c\<in>set (contacts two_tenants). id_contact c = 2)
        \<and> (\<forall>c\<in>set (contacts two_tenants). id_contact c = 2 \<longrightarrow> user_id c \<noteq> id_user alice)"
    by (simp add: two_tenants_def contact_of_alice_def contact_of_bob_def alice_def)
  have g: "fst (get_contact_route 2 two_tenants bob) = Inr contact_of_bob"
    by (simp add: get_contact_route_def get_contact_def select_contact_def two_tenants_def
        contact_of_alice_def contact_of_bob_def bob_def scalar_one_or_none_def or_404_def)
  from single_record_operations_owner_scoped[of 2 two_tenants alice new_body] h g
  show ?thesis by blast
qed

section \<open>Frame of an update\<close>

lemma map_frame:
  "(\<And>x. g (f x) = g x) \<Longrightarrow> map g (map f xs) = map g xs"
  by simp

text \<open>
  Claim C10. When \<open>update_contact\<close> succeeds, the contact it returns is the owned contact
  with \<open>firstname\<close>, \<open>lastname\<close>, \<open>email\<close>, \<open>phone\<close> and \<open>birthday\<close> taken from the
  request body and nothing else changed: \<open>additional_data\<close>, the id and the owner are
  those of the stored contact, whatever \<open>additional_data\<close> the body carries. The same holds
  for every row of the table after the commit.
\<close>

theorem update_contact_frame:
  assumes "update_contact_route body contact_id db user = (Inr c', db')"
  shows "(\<exists>c\<in>set (contacts db). id_contact c = contact_id \<and> user_id c = id_user user
            \<and> c' = c\<lparr>firstname := firstname body, lastname := lastname body,
                      ContactSchema.email := ContactSchema.email body, phone := phone body,
                      birthday := birthday body\<rparr>
            \<and> additional_data c' = additional_data c
            \<and> id_contact c' = id_contact c \<and> user_id c' = user_id c)
         \<and> contacts db' =
             map (\<lambda>x. if id_contact x = contact_id
                       then x\<lparr>firstname := firstname body, lastname := lastname body,
                               ContactSchema.email := ContactSchema.email body,
                               phone := phone body, birthday := birthday body\<rparr>
                       else x) (contacts db)
         \<and> map additional_data (contacts db') = map additional_data (contacts db)
         \<and> map id_contact (contacts db') = map id_contact (contacts db)
         \<and> map user_id (contacts db') = map user_id (contacts db)
         \<and> users db' = users db"
proof -
  from assms obtain r where r: "update_contact contact_id body db user = (r, db')"
    and o: "or_404 r = Inr c'"
    by (auto simp: update_contact_route_def split: prod.splits)
  from o have r': "r = Inr (Some c')" by (rule or_404_Inr)
  from r r' obtain c where sel: "scalar_one_or_none (select_contact contact_id db user) = Inr (Some c)"
    and c': "c' = assign_body body c"
    and db': "db' = db\<lparr>contacts :=
                map (\<lambda>x. if id_contact x = id_contact c then assign_body body x else x)
                  (contacts db)\<rparr>"
    by (auto simp: update_contact_def split: sum.splits option.splits)
  from sel have "get_contact contact_id db user = Inr (Some c)" by (simp add: get_contact_def)
  then have own: "c \<in> set (contacts db) \<and> id_contact c = contact_id \<and> user_id c = id_user user"
    by (rule get_contact_owned)
  have first: "\<exists>c\<in>set (contacts db). id_contact c = contact_id \<and> user_id c = id_user user
            \<and> c' = c\<lparr>firstname := firstname body, lastname := lastname body,
                      ContactSchema.email := ContactSchema.email body, phone := phone body,
                      birthday := birthday body\<rparr>
            \<and> additional_data c' = additional_data c
            \<and> id_contact c' = id_contact c \<and> user_id c' = user_id c"
    using own c' by (intro bexI[of _ c]) (simp_all add: assign_body_def)
  have stored: "contacts db' =
             map (\<lambda>x. if id_contact x = contact_id
                       then x\<lparr>firstname := firstname body, lastname := lastname body,
                               ContactSchema.email := ContactSchema.email body,
                               phone := phone body, birthday := birthday body\<rparr>
                       else x) (contacts db)"
    using own db' by (simp add: assign_body_def)
  have f1: "map additional_data (contacts db') = map additional_data (contacts db)"
    unfolding stored by (rule map_frame) simp
  have f2: "map id_contact (contacts db') = map id_contact (contacts db)"
    unfolding stored by (rule map_frame) simp
  have f3: "map user_id (contacts db') = map user_id (contacts db)"
    unfolding stored by (rule map_frame) simp
  have f4: "users db' = users db" using db' by simp
  from first stored f1 f2 f3 f4 show ?thesis by blast
qed

theorem update_contact_frame_witness:
  "update_contact_route new_body 1 two_tenants alice
     = (Inr (contact_of_alice\<lparr>firstname := ''Dieter'', lastname := ''Dierks'',
               ContactSchema.email := ''dd@example.com'', phone := ''0673333333'',
               birthday := \<lparr>year = 2024, month = 1, day = 2\<rparr>\<rparr>),
        two_tenants\<lparr>contacts :=
          [contact_of_alice\<lparr>firstname := ''Dieter'', lastname := ''Dierks'',
               ContactSchema.email := ''dd@example.com'', phone := ''0673333333'',
               birthday := \<lparr>year = 2024, month = 1, day = 2\<rparr>\<rparr>, contact_of_bob]\<rparr>)
   \<and> additional_data new_body = ''changed''
   \<and> map additional_data
        (contacts (snd (update_contact_route new_body 1 two_tenants alice))) = [''friend'', ''work'']"
proof -
  have run: "update_contact_route new_body 1 two_tenants alice
     = (Inr (contact_of_alice\<lparr>firstname := ''Dieter'', lastname := ''Dierks'',
               ContactSchema.email := ''dd@example.com'', phone := ''0673333333'',
               birthday := \<lparr>year = 2024, month = 1, day = 2\<rparr>\<rparr>),
        two_tenants\<lparr>contacts :=
          [contact_of_alice\<lparr>firstname := ''Dieter'', lastname := ''Dierks'',
               ContactSchema.email := ''dd@example.com'', phone := ''0673333333'',
               birthday := \<lparr>year = 2024, month = 1, day = 2\<rparr>\<rparr>, contact_of_bob]\<rparr>)"
    by (simp add: update_contact_route_def update_contact_def select_contact_def
        scalar_one_or_none_def or_404_def assign_body_def two_tenants_def alice_def
        contact_of_alice_def contact_of_bob_def new_body_def)
  have old: "map additional_data (contacts two_tenants) = [''friend'', ''work'']"
    by (simp add: two_tenants_def contact_of_alice_def contact_of_bob_def)
  from update_contact_frame[OF run]
  have "map additional_data (contacts (two_tenants\<lparr>contacts :=
          [contact_of_alice\<lparr>firstname := ''Dieter'', lastname := ''Dierks'',
               ContactSchema.email := ''dd@example.com'', phone := ''0673333333'',
               birthday := \<lparr>year = 2024, month = 1, day = 2\<rparr>\<rparr>, contact_of_bob]\<rparr>))
        = map additional_data (contacts two_tenants)"
    by blast
  then have "map additional_data
        (contacts (snd (update_contact_route new_body 1 two_tenants alice))) = [''friend'', ''work'']"
    unfolding run snd_conv old .
  moreover have "additional_data new_body = ''changed''" by (simp add: new_body_def)
  ultimately show ?thesis using run by blast
qed

section \<open>Search is global\<close>

text \<open>
  Claim C3. For every database and every two principals, the text search with the same
  query and the birthday search return the same result to both: no owner filter is
  applied, and every contact that matches is returned, whoever owns it.
\<close>

theorem search_is_not_owner_scoped:
  "search_contacts ilike query db a = search_contacts ilike query db b
   \<and> search_by_birthday today db a = search_by_birthday today db b
   \<and> (\<forall>c\<in>set (contacts db).
         ilike (firstname c) (''%'' @ query @ ''%'') \<or> ilike (lastname c) (''%'' @ query @ ''%'')
           \<or> ilike (ContactSchema.email c) (''%'' @ query @ ''%'')
         \<longrightarrow> c \<in> set (search_contacts ilike query db a))
   \<and> (\<forall>c\<in>set (contacts db). \<forall>end_day.
         date_plus_days today 7 = Inr end_day \<and> date_le today (birthday c)
           \<and> date_le (birthday c) end_day
         \<longrightarrow> (\<exists>r. search_by_birthday today db a = Inr r \<and> c \<in> set r))"
  by (auto simp: search_contacts_def search_by_birthday_def)

theorem search_is_not_owner_scoped_witness:
  "search_contacts ilike_exact ''Martin'' two_tenants alice
     = search_contacts ilike_exact ''Martin'' two_tenants bob
   \<and> user_id contact_of_bob \<noteq> id_user alice
   \<and> contact_of_bob \<in> set (search_contacts ilike_exact ''Martin'' two_tenants alice)
   \<and> search_by_birthday \<lparr>year = 2024, month = 6, day = 1\<rparr> two_tenants alice
     = search_by_birthday \<lparr>year = 2024, month = 6, day = 1\<rparr> two_tenants bob"
proof -
  have m: "contact_of_bob \<in> set (contacts two_tenants)
      \<and> ilike_exact (firstname contact_of_bob) (''%'' @ ''Martin'' @ ''%'')"
    by (simp add: two_tenants_def contact_of_bob_def ilike_exact_def)
  have o: "user_id contact_of_bob \<noteq> id_user alice"
    by (simp add: contact_of_bob_def alice_def)
  from search_is_not_owner_scoped[of ilike_exact "''Martin''" two_tenants alice bob
      "\<lparr>year = 2024, month = 6, day = 1\<rparr>"] m o
  show ?thesis by blast
qed

section \<open>Role gate on the unscoped listing\<close>

text \<open>
  Claim C7. The unscoped listing succeeds exactly for the roles moderator and admin and
  returns the page of all contacts; for the role user it fails with 403. The owner-scoped
  routes do not look at the role: the listing of one's own contacts always succeeds, and
  get, update and delete give the same outcome whatever the role.
\<close>

theorem role_gate_on_list_all:
  "(role user = Role_admin \<or> role user = Role_moderator \<longrightarrow>
      get_all_contacts_route limit offset db user
        = (Inr (take limit (drop offset (contacts db))), db))
   \<and> (role user = Role_user \<longrightarrow>
      get_all_contacts_route limit offset db user = (Inl (HTTPException 403 FORBIDDEN), db))
   \<and> ((\<exists>cs. fst (get_all_contacts_route limit offset db user) = Inr cs)
        \<longleftrightarrow> role user \<in> {Role_moderator, Role_admin})
   \<and> (\<exists>cs. get_contacts_route limit offset db user = (Inr cs, db))
   \<and> get_contacts_route limit offset db (user\<lparr>role := r\<rparr>)
        = get_contacts_route limit offset db user
   \<and> get_contact_route contact_id db (user\<lparr>role := r\<rparr>) = get_contact_route contact_id db user
   \<and> update_contact_route body contact_id db (user\<lparr>role := r\<rparr>)
        = update_contact_route body contact_id db user
   \<and> delete_contact_route contact_id db (user\<lparr>role := r\<rparr>)
        = delete_contact_route contact_id db user"
proof -
  have gate: "access_to_route_all user =
      (if role user = Role_user then Inl (HTTPException 403 FORBIDDEN) else Inr ())"
    by (cases "role user") (simp_all add: access_to_route_all_def RoleAccess_def)
  have sel: "select_contact contact_id db (user\<lparr>role := r\<rparr>) = select_contact contact_id db user"
    by (simp add: select_contact_def)
  show ?thesis
    by (cases "role user")
      (simp_all add: get_all_contacts_route_def gate get_all_contacts_def get_contacts_route_def
        get_contacts_def get_contact_route_def get_contact_def update_contact_route_def
        update_contact_def delete_contact_route_def delete_contact_def sel)
qed

theorem role_gate_on_list_all_witness:
  "get_all_contacts_route 10 0 two_tenants alice = (Inl (HTTPException 403 FORBIDDEN), two_tenants)
   \<and> get_all_contacts_route 10 0 two_tenants (alice\<lparr>role := Role_moderator\<rparr>)
       = (Inr [contact_of_alice, contact_of_bob], two_tenants)
   \<and> get_all_contacts_route 10 0 two_tenants (alice\<lparr>role := Role_admin\<rparr>)
       = (Inr [contact_of_alice, contact_of_bob], two_tenants)
   \<and> get_contacts_route 10 0 two_tenants alice = (Inr [contact_of_alice], two_tenants)"
proof -
  have r: "role alice = Role_user" by (simp add: alice_def)
  have g: "get_contacts_route 10 0 two_tenants alice = (Inr [contact_of_alice], two_tenants)"
    by (simp add: get_contacts_route_def get_contacts_def two_tenants_def alice_def
        contact_of_alice_def contact_of_bob_def)
  have c: "contacts two_tenants = [contact_of_alice, contact_of_bob]"
    by (simp add: two_tenants_def)
  from role_gate_on_list_all[of alice 10 0 two_tenants]
       role_gate_on_list_all[of "alice\<lparr>role := Role_moderator\<rparr>" 10 0 two_tenants]
       role_gate_on_list_all[of "alice\<lparr>role := Role_admin\<rparr>" 10 0 two_tenants]
       r g c
  show ?thesis by simp
qed

section \<open>Lookups after a write\<close>

lemma find_map_same:
  "(\<And>x. P (f x) = P x) \<Longrightarrow> find P (map f xs) = map_option f (find P xs)"
  by (induction xs) auto

lemma find_Some_holds: "find P xs = Some x \<Longrightarrow> P x"
  by (induction xs) (auto split: if_splits)

lemma get_user_by_email_holds:
  "get_user_by_email e db = Some u \<Longrightarrow> User.email u = e"
  unfolding get_user_by_email_def by (drule find_Some_holds) simp

lemma get_user_after_update_token:
  assumes "get_user_by_email e db = Some u"
  shows "get_user_by_email e (update_token u t db) = Some (u\<lparr>User.refresh_token := t\<rparr>)"
proof -
  let ?f = "\<lambda>x. if id_user x = id_user u then x\<lparr>User.refresh_token := t\<rparr> else x"
  have "find (\<lambda>x. User.email x = e) (map ?f (users db))
          = map_option ?f (find (\<lambda>x. User.email x = e) (users db))"
    by (rule find_map_same) simp
  with assms show ?thesis
    by (simp add: get_user_by_email_def update_token_def)
qed

lemma get_user_after_confirmed_email:
  assumes "get_user_by_email e db = Some u"
  shows "get_user_by_email e (confirmed_email e db) = Some (u\<lparr>confirmed := True\<rparr>)"
proof -
  let ?f = "\<lambda>x. if User.email x = e then x\<lparr>confirmed := True\<rparr> else x"
  have "find (\<lambda>x. User.email x = e) (map ?f (users db))
          = map_option ?f (find (\<lambda>x. User.email x = e) (users db))"
    by (rule find_map_same) simp
  with assms get_user_by_email_holds[OF assms] show ?thesis
    by (simp add: get_user_by_email_def confirmed_email_def)
qed

section \<open>Login\<close>

text \<open>
  Claim C4. A login with an email that no principal has fails with 401 \<open>INVALID_EMAIL\<close>
  (UserNotFound); with an unconfirmed principal it fails with 401 \<open>EMAIL_NOT_CONFIRMED\<close>,
  whatever the password; with a confirmed principal and a password that does not verify
  against the stored hash it fails with 401 \<open>INVALID_PASSWORD\<close> (InvalidCredentials); a
  failed login leaves the database as it was. Otherwise the reply carries the access token
  and the refresh token that the codec issued for that email, with token type \<open>bearer\<close>,
  and the refresh token is stored on the principal. The two strings are the codec's own:
  they are non-empty when the tokens the codec issues are.
\<close>

theorem login_outcomes:
  "(get_user_by_email e db = None \<longrightarrow>
      login svc now e p db = (Inl (HTTPException 401 INVALID_EMAIL), db))
   \<and> (\<forall>u. get_user_by_email e db = Some u \<and> \<not> confirmed u \<longrightarrow>
      login svc now e p db = (Inl (HTTPException 401 EMAIL_NOT_CONFIRMED), db))
   \<and> (\<forall>u. get_user_by_email e db = Some u \<and> confirmed u
          \<and> \<not> verify_password svc p (password u) \<longrightarrow>
      login svc now e p db = (Inl (HTTPException 401 INVALID_PASSWORD), db))
   \<and> (\<forall>u. get_user_by_email e db = Some u \<and> confirmed u \<and> verify_password svc p (password u) \<longrightarrow>
      (\<exists>t db'. login svc now e p db = (Inr t, db')
         \<and> access_token t = create_access_token svc now e
         \<and> TokenSchema.refresh_token t = create_refresh_token svc now e
         \<and> token_type t = ''bearer''
         \<and> get_user_by_email e db'
             = Some (u\<lparr>User.refresh_token := Some (TokenSchema.refresh_token t)\<rparr>)
         \<and> (create_access_token svc now e \<noteq> [] \<and> create_refresh_token svc now e \<noteq> []
              \<longrightarrow> access_token t \<noteq> [] \<and> TokenSchema.refresh_token t \<noteq> [])))"
proof -
  have ok: "\<exists>t db'. login svc now e p db = (Inr t, db')
         \<and> access_token t = create_access_token svc now e
         \<and> TokenSchema.refresh_token t = create_refresh_token svc now e
         \<and> token_type t = ''bearer''
         \<and> get_user_by_email e db'
             = Some (u\<lparr>User.refresh_token := Some (TokenSchema.refresh_token t)\<rparr>)
         \<and> (create_access_token svc now e \<noteq> [] \<and> create_refresh_token svc now e \<noteq> []
              \<longrightarrow> access_token t \<noteq> [] \<and> TokenSchema.refresh_token t \<noteq> [])"
    if u: "get_user_by_email e db = Some u" and c: "confirmed u"
      and v: "verify_password svc p (password u)" for u
  proof -
    have em: "User.email u = e" using u by (rule get_user_by_email_holds)
    have run: "login svc now e p db =
        (Inr \<lparr>access_token = create_access_token svc now e,
              TokenSchema.refresh_token = create_refresh_token svc now e,
              token_type = ''bearer''\<rparr>,
         update_token u (Some (create_refresh_token svc now e)) db)"
      using u c v em by (simp add: login_def Let_def)
    show ?thesis
      unfolding run using get_user_after_update_token[OF u] by simp
  qed
  have e1: "get_user_by_email e db = None \<Longrightarrow>
      login svc now e p db = (Inl (HTTPException 401 INVALID_EMAIL), db)"
    by (simp add: login_def)
  have e2: "get_user_by_email e db = Some u \<Longrightarrow> \<not> confirmed u \<Longrightarrow>
      login svc now e p db = (Inl (HTTPException 401 EMAIL_NOT_CONFIRMED), db)" for u
    by (simp add: login_def)
  have e3: "get_user_by_email e db = Some u \<Longrightarrow> confirmed u \<Longrightarrow>
      \<not> verify_password svc p (password u) \<Longrightarrow>
      login svc now e p db = (Inl (HTTPException 401 INVALID_PASSWORD), db)" for u
    by (simp add: login_def)
  from e1 e2 e3 ok show ?thesis by blast
qed

lemma example_lookups:
  "get_user_by_email ''alice@example.com'' three_users = Some alice"
  "get_user_by_email ''carol@example.com'' three_users = Some carol"
  "get_user_by_email ''nobody@example.com'' three_users = None"
  by (simp_all add: get_user_by_email_def three_users_def alice_def bob_def carol_def)

theorem login_outcomes_witness:
  "login example_service 0 ''nobody@example.com'' ''a'' three_users
     = (Inl (HTTPException 401 INVALID_EMAIL), three_users)
   \<and> login example_service 0 ''carol@example.com'' ''c'' three_users
     = (Inl (HTTPException 401 EMAIL_NOT_CONFIRMED), three_users)
   \<and> login example_service 0 ''alice@example.com'' ''wrong'' three_users
     = (Inl (HTTPException 401 INVALID_PASSWORD), three_users)
   \<and> (\<exists>t db'. login example_service 0 ''alice@example.com'' ''a'' three_users = (Inr t, db')
        \<and> access_token t = ''access:alice@example.com:''
        \<and> TokenSchema.refresh_token t = ''refresh:alice@example.com:''
        \<and> token_type t = ''bearer''
        \<and> get_user_by_email ''alice@example.com'' db'
            = Some (alice\<lparr>User.refresh_token := Some ''refresh:alice@example.com:''\<rparr>))"
proof -
  have f: "\<not> confirmed carol" "confirmed alice"
      "\<not> verify_password example_service ''wrong'' (password alice)"
      "verify_password example_service ''a'' (password alice)"
    by (simp_all add: carol_def alice_def example_service_def)
  have g: "create_access_token example_service 0 ''alice@example.com'' = ''access:alice@example.com:''"
      "create_refresh_token example_service 0 ''alice@example.com'' = ''refresh:alice@example.com:''"
    by (simp_all add: example_service_def)
  note t1 = login_outcomes[of "''nobody@example.com''" three_users example_service 0 "''a''"]
  note t2 = login_outcomes[of "''carol@example.com''" three_users example_service 0 "''c''"]
  note t3 = login_outcomes[of "''alice@example.com''" three_users example_service 0 "''wrong''"]
  note t4 = login_outcomes[of "''alice@example.com''" three_users example_service 0 "''a''"]
  have a: "login example_service 0 ''nobody@example.com'' ''a'' three_users
     = (Inl (HTTPException 401 INVALID_EMAIL), three_users)"
    by (rule mp[OF conjunct1[OF t1] example_lookups(3)])
  have b: "login example_service 0 ''carol@example.com'' ''c'' three_users
     = (Inl (HTTPException 401 EMAIL_NOT_CONFIRMED), three_users)"
    by (rule mp[OF spec[OF conjunct1[OF conjunct2[OF t2]], of carol]])
       (intro conjI example_lookups(2) f(1))
  have c: "login example_service 0 ''alice@example.com'' ''wrong'' three_users
     = (Inl (HTTPException 401 INVALID_PASSWORD), three_users)"
    by (rule mp[OF spec[OF conjunct1[OF conjunct2[OF conjunct2[OF t3]]], of alice]])
       (intro conjI example_lookups(1) f(2) f(3))
  have d: "\<exists>t db'. login example_service 0 ''alice@example.com'' ''a'' three_users = (Inr t, db')
        \<and> access_token t = ''access:alice@example.com:''
        \<and> TokenSchema.refresh_token t = ''refresh:alice@example.com:''
        \<and> token_type t = ''bearer''
        \<and> get_user_by_email ''alice@example.com'' db'
            = Some (alice\<lparr>User.refresh_token := Some ''refresh:alice@example.com:''\<rparr>)"
  proof -
    have "\<exists>t db'. login example_service 0 ''alice@example.com'' ''a'' three_users = (Inr t, db')
         \<and> access_token t = create_access_token example_service 0 ''alice@example.com''
         \<and> TokenSchema.refresh_token t = create_refresh_token example_service 0 ''alice@example.com''
         \<and> token_type t = ''bearer''
         \<and> get_user_by_email ''alice@example.com'' db'
             = Some (alice\<lparr>User.refresh_token := Some (TokenSchema.refresh_token t)\<rparr>)
         \<and> (create_access_token example_service 0 ''alice@example.com'' \<noteq> []
              \<and> create_refresh_token example_service 0 ''alice@example.com'' \<noteq> []
              \<longrightarrow> access_token t \<noteq> [] \<and> TokenSchema.refresh_token t \<noteq> [])"
      by (rule mp[OF spec[OF conjunct2[OF conjunct2[OF conjunct2[OF t4]]], of alice]])
         (intro conjI example_lookups(1) f(2) f(4))
    then obtain t db' where r: "login example_service 0 ''alice@example.com'' ''a'' three_users = (Inr t, db')"
      and r1: "access_token t = create_access_token example_service 0 ''alice@example.com''"
      and r2: "TokenSchema.refresh_token t = create_refresh_token example_service 0 ''alice@example.com''"
      and r3: "token_type t = ''bearer''"
      and r4: "get_user_by_email ''alice@example.com'' db'
             = Some (alice\<lparr>User.refresh_token := Some (TokenSchema.refresh_token t)\<rparr>)"
      by (elim exE conjE) (rule that, assumption+)
    from r r1 r2 r3 r4[unfolded r2] show ?thesis unfolding g by (intro exI conjI)
  qed
  from a b c d show ?thesis by (intro conjI)
qed

section \<open>Refresh-token rotation\<close>

lemma refresh_token_route_mismatch:
  assumes "decode_refresh_token svc now token = Inr e" and "get_user_by_email e db = Some u"
    and "User.refresh_token u \<noteq> Some token"
  shows "refresh_token_route svc now token db
           = (Inl (HTTPException 401 (Detail ''Invalid refresh token'')), update_token u None db)"
  using assms by (simp add: refresh_token_route_def)

lemma refresh_token_route_match:
  assumes "decode_refresh_token svc now token = Inr e" and "get_user_by_email e db = Some u"
    and "User.refresh_token u = Some token"
  shows "refresh_token_route svc now token db
           = (Inr \<lparr>access_token = create_access_token svc now e,
                   TokenSchema.refresh_token = create_refresh_token svc now e,
                   token_type = ''bearer''\<rparr>,
              update_token u (Some (create_refresh_token svc now e)) db)"
  using assms by (simp add: refresh_token_route_def Let_def)

lemma refresh_token_route_accepts:
  assumes "fst (refresh_token_route svc now token db) = Inr t"
  shows "\<exists>e u. decode_refresh_token svc now token = Inr e \<and> get_user_by_email e db = Some u
           \<and> User.refresh_token u = Some token"
  using assms
  by (auto simp: refresh_token_route_def Let_def split: sum.splits option.splits if_splits)

text \<open>
  Claim C2, as amended. A presented refresh token is accepted only if it decodes to the
  email of a principal whose stored \<open>refresh_token\<close> equals it. For a principal found by
  the decoded email: on a mismatch the route fails with 401 ``Invalid refresh token''
  (RefreshTokenRevoked) and the stored token is null afterwards; on a match a new pair is
  issued and the new refresh token is the stored one afterwards. A replay of the previous
  token, while it still decodes, then fails with 401 ``Invalid refresh token'' and clears
  the stored token whenever the newly issued refresh token differs from the previous one.
\<close>

theorem refresh_token_rotation:
  assumes dec: "decode_refresh_token svc now token = Inr e"
    and usr: "get_user_by_email e db = Some u"
  shows "(\<forall>t. fst (refresh_token_route svc now' token' db) = Inr t \<longrightarrow>
            (\<exists>e' u'. decode_refresh_token svc now' token' = Inr e'
               \<and> get_user_by_email e' db = Some u' \<and> User.refresh_token u' = Some token'))
         \<and> (User.refresh_token u \<noteq> Some token \<longrightarrow>
              refresh_token_route svc now token db
                = (Inl (HTTPException 401 (Detail ''Invalid refresh token'')),
                   update_token u None db)
              \<and> get_user_by_email e (update_token u None db)
                  = Some (u\<lparr>User.refresh_token := None\<rparr>))
         \<and> (User.refresh_token u = Some token \<longrightarrow>
              (\<exists>t db'. refresh_token_route svc now token db = (Inr t, db')
                 \<and> access_token t = create_access_token svc now e
                 \<and> TokenSchema.refresh_token t = create_refresh_token svc now e
                 \<and> token_type t = ''bearer''
                 \<and> get_user_by_email e db'
                     = Some (u\<lparr>User.refresh_token := Some (TokenSchema.refresh_token t)\<rparr>)
                 \<and> (\<forall>later. decode_refresh_token svc later token = Inr e
                        \<and> TokenSchema.refresh_token t \<noteq> token \<longrightarrow>
                      (\<exists>db''. refresh_token_route svc later token db'
                          = (Inl (HTTPException 401 (Detail ''Invalid refresh token'')), db'')
                         \<and> get_user_by_email e db''
                             = Some (u\<lparr>User.refresh_token := None\<rparr>)))))"
proof -
  have only_if: "\<exists>e' u'. decode_refresh_token svc now' token' = Inr e'
               \<and> get_user_by_email e' db = Some u' \<and> User.refresh_token u' = Some token'"
    if "fst (refresh_token_route svc now' token' db) = Inr t" for t
    using that by (rule refresh_token_route_accepts)
  have mismatch: "refresh_token_route svc now token db
                = (Inl (HTTPException 401 (Detail ''Invalid refresh token'')),
                   update_token u None db)
              \<and> get_user_by_email e (update_token u None db)
                  = Some (u\<lparr>User.refresh_token := None\<rparr>)"
    if "User.refresh_token u \<noteq> Some token"
    using refresh_token_route_mismatch[OF dec usr that] get_user_after_update_token[OF usr]
    by simp
  have match: "\<exists>t db'. refresh_token_route svc now token db = (Inr t, db')
                 \<and> access_token t = create_access_token svc now e
                 \<and> TokenSchema.refresh_token t = create_refresh_token svc now e
                 \<and> token_type t = ''bearer''
                 \<and> get_user_by_email e db'
                     = Some (u\<lparr>User.refresh_token := Some (TokenSchema.refresh_token t)\<rparr>)
                 \<and> (\<forall>later. decode_refresh_token svc later token = Inr e
                        \<and> TokenSchema.refresh_token t \<noteq> token \<longrightarrow>
                      (\<exists>db''. refresh_token_route svc later token db'
                          = (Inl (HTTPException 401 (Detail ''Invalid refresh token'')), db'')
                         \<and> get_user_by_email e db''
                             = Some (u\<lparr>User.refresh_token := None\<rparr>)))"
    if m: "User.refresh_token u = Some token"
  proof -
    let ?new = "create_refresh_token svc now e"
    let ?db' = "update_token u (Some ?new) db"
    let ?u' = "u\<lparr>User.refresh_token := Some ?new\<rparr>"
    have run: "refresh_token_route svc now token db
           = (Inr \<lparr>access_token = create_access_token svc now e,
                   TokenSchema.refresh_token = ?new, token_type = ''bearer''\<rparr>, ?db')"
      by (rule refresh_token_route_match[OF dec usr m])
    have stored: "get_user_by_email e ?db' = Some ?u'"
      by (rule get_user_after_update_token[OF usr])
    have replay: "\<exists>db''. refresh_token_route svc later token ?db'
                          = (Inl (HTTPException 401 (Detail ''Invalid refresh token'')), db'')
                         \<and> get_user_by_email e db'' = Some (u\<lparr>User.refresh_token := None\<rparr>)"
      if d: "decode_refresh_token svc later token = Inr e" and fresh: "?new \<noteq> token" for later
    proof -
      have ne: "User.refresh_token ?u' \<noteq> Some token" using fresh by simp
      have "get_user_by_email e (update_token ?u' None ?db') = Some (?u'\<lparr>User.refresh_token := None\<rparr>)"
        by (rule get_user_after_update_token[OF stored])
      then have "get_user_by_email e (update_token ?u' None ?db') = Some (u\<lparr>User.refresh_token := None\<rparr>)"
        by simp
      with refresh_token_route_mismatch[OF d stored ne] show ?thesis by blast
    qed
    show ?thesis
      unfolding run using stored replay by simp
  qed
  from only_if mismatch match show ?thesis by blast
qed

text \<open>
  Claim C8. When the refresh token decodes (well signed, not expired) to an email that no
  principal has, the route reads \<open>refresh_token\<close> of \<open>None\<close>: it raises \<open>AttributeError\<close>,
  which is no \<open>HTTPException\<close> (not a 401, not a 404), and writes nothing.
\<close>

theorem refresh_token_absent_principal:
  assumes "decode_refresh_token svc now token = Inr e" and "get_user_by_email e db = None"
  shows "refresh_token_route svc now token db = (Inl AttributeError, db)
         \<and> (\<forall>status d. fst (refresh_token_route svc now token db) \<noteq> Inl (HTTPException status d))"
  using assms by (simp add: refresh_token_route_def)

lemma example_decode:
  "decode_refresh_token example_service 1 ''refresh:alice@example.com:'' = Inr ''alice@example.com''"
  "decode_refresh_token example_service 1 ''refresh:nobody@example.com:'' = Inr ''nobody@example.com''"
  "decode_refresh_token example_service 2 ''refresh:alice@example.com:'' = Inr ''alice@example.com''"
  by (simp_all add: example_service_def issued_at_def)

lemma example_logged_in_lookup:
  "get_user_by_email ''alice@example.com'' alice_logged_in
     = Some (alice\<lparr>User.refresh_token := Some ''refresh:alice@example.com:''\<rparr>)"
  "get_user_by_email ''nobody@example.com'' alice_logged_in = None"
  by (simp_all add: get_user_by_email_def alice_logged_in_def alice_def bob_def carol_def)

theorem refresh_token_rotation_witness:
  "\<exists>t db'. refresh_token_route example_service 1 ''refresh:alice@example.com:'' alice_logged_in
              = (Inr t, db')
     \<and> TokenSchema.refresh_token t = ''refresh:alice@example.com:I''
     \<and> token_type t = ''bearer''
     \<and> (\<exists>db''. refresh_token_route example_service 2 ''refresh:alice@example.com:'' db'
                  = (Inl (HTTPException 401 (Detail ''Invalid refresh token'')), db'')
           \<and> get_user_by_email ''alice@example.com'' db''
               = Some (alice\<lparr>User.refresh_token := None\<rparr>))"
proof -
  let ?tok = "''refresh:alice@example.com:''"
  let ?e = "''alice@example.com''"
  let ?u = "alice\<lparr>User.refresh_token := Some ?tok\<rparr>"
  note th = refresh_token_rotation[OF example_decode(1) example_logged_in_lookup(1), of 1 ?tok]
  have m: "User.refresh_token ?u = Some ?tok" by simp
  have new: "create_refresh_token example_service 1 ?e = ''refresh:alice@example.com:I''"
    by (simp add: example_service_def)
  from mp[OF conjunct2[OF conjunct2[OF th]] m]
  obtain t db' where run: "refresh_token_route example_service 1 ?tok alice_logged_in = (Inr t, db')"
    and rt: "TokenSchema.refresh_token t = create_refresh_token example_service 1 ?e"
    and tt: "token_type t = ''bearer''"
    and replay: "\<forall>later. decode_refresh_token example_service later ?tok = Inr ?e
                        \<and> TokenSchema.refresh_token t \<noteq> ?tok \<longrightarrow>
                      (\<exists>db''. refresh_token_route example_service later ?tok db'
                          = (Inl (HTTPException 401 (Detail ''Invalid refresh token'')), db'')
                         \<and> get_user_by_email ?e db'' = Some (?u\<lparr>User.refresh_token := None\<rparr>))"
    by (elim exE conjE) (rule that, assumption+)
  have fresh: "TokenSchema.refresh_token t \<noteq> ?tok" unfolding rt new by simp
  have "\<exists>db''. refresh_token_route example_service 2 ?tok db'
                          = (Inl (HTTPException 401 (Detail ''Invalid refresh token'')), db'')
                         \<and> get_user_by_email ?e db'' = Some (?u\<lparr>User.refresh_token := None\<rparr>)"
    by (rule mp[OF spec[OF replay, of 2]]) (intro conjI example_decode(3) fresh)
  then have again: "\<exists>db''. refresh_token_route example_service 2 ?tok db'
                          = (Inl (HTTPException 401 (Detail ''Invalid refresh token'')), db'')
                         \<and> get_user_by_email ?e db'' = Some (alice\<lparr>User.refresh_token := None\<rparr>)"
    by simp
  note rt' = rt[unfolded new]
  show ?thesis
    by (rule exI[of _ t], rule exI[of _ db'], intro conjI) (fact run, fact rt', fact tt, fact again)
qed

text \<open>
  Claim C2 as stated has no condition on the issued token: after one successful refresh
  the replay of the previous token is to fail. The route compares strings and nothing in
  it makes the issued token new. With the example codec, a refresh at the time of issue
  of the stored token issues the same string again: the database is as before and the
  replay is accepted.
\<close>

theorem refresh_token_replay_counterexample:
  "refresh_token_route example_service 0 ''refresh:alice@example.com:'' alice_logged_in
     = (Inr \<lparr>access_token = ''access:alice@example.com:'',
             TokenSchema.refresh_token = ''refresh:alice@example.com:'',
             token_type = ''bearer''\<rparr>,
        alice_logged_in)
   \<and> refresh_token_route example_service 0 ''refresh:alice@example.com:''
        (snd (refresh_token_route example_service 0 ''refresh:alice@example.com:''
               alice_logged_in))
     = (Inr \<lparr>access_token = ''access:alice@example.com:'',
             TokenSchema.refresh_token = ''refresh:alice@example.com:'',
             token_type = ''bearer''\<rparr>,
        alice_logged_in)
   \<and> fst (refresh_token_route example_service 0 ''refresh:alice@example.com:''
        (snd (refresh_token_route example_service 0 ''refresh:alice@example.com:''
               alice_logged_in)))
     \<noteq> Inl (HTTPException 401 (Detail ''Invalid refresh token''))"
proof -
  have run: "refresh_token_route example_service 0 ''refresh:alice@example.com:'' alice_logged_in
     = (Inr \<lparr>access_token = ''access:alice@example.com:'',
             TokenSchema.refresh_token = ''refresh:alice@example.com:'',
             token_type = ''bearer''\<rparr>,
        alice_logged_in)"
    by (simp add: refresh_token_route_def example_service_def issued_at_def get_user_by_email_def
        update_token_def alice_logged_in_def alice_def bob_def carol_def Let_def)
  show ?thesis unfolding run snd_conv fst_conv by simp
qed

theorem refresh_token_absent_principal_witness:
  "refresh_token_route example_service 1 ''refresh:nobody@example.com:'' alice_logged_in
     = (Inl AttributeError, alice_logged_in)"
  by (rule conjunct1[OF refresh_token_absent_principal[OF example_decode(2) example_logged_in_lookup(2)]])

section \<open>Email confirmation\<close>

text \<open>
  Claim C5. With a confirmation token that verifies: when no principal has the email of
  the token the route fails with 400 ``Verification error''; when the principal is already
  confirmed it replies ``Your email is already confirmed'' and changes nothing; otherwise
  it replies ``Email confirmed'' and the principal is confirmed afterwards, so a second
  call with the same token, at any time at which the token still verifies, is the no-op
  with the ``already confirmed'' reply.
\<close>

theorem confirmed_email_idempotent:
  assumes tok: "get_email_from_token svc now token = Inr e"
  shows "(get_user_by_email e db = None \<longrightarrow>
            confirmed_email_route svc now token db
              = (Inl (HTTPException 400 (Detail ''Verification error'')), db))
         \<and> (\<forall>u. get_user_by_email e db = Some u \<and> confirmed u \<longrightarrow>
            confirmed_email_route svc now token db = (Inr ''Your email is already confirmed'', db))
         \<and> (\<forall>u. get_user_by_email e db = Some u \<and> \<not> confirmed u \<longrightarrow>
            (\<exists>db'. confirmed_email_route svc now token db = (Inr ''Email confirmed'', db')
               \<and> get_user_by_email e db' = Some (u\<lparr>confirmed := True\<rparr>)
               \<and> contacts db' = contacts db
               \<and> (\<forall>later. get_email_from_token svc later token = Inr e \<longrightarrow>
                     confirmed_email_route svc later token db'
                       = (Inr ''Your email is already confirmed'', db'))))"
proof -
  have absent: "confirmed_email_route svc now token db
              = (Inl (HTTPException 400 (Detail ''Verification error'')), db)"
    if "get_user_by_email e db = None"
    using that tok by (simp add: confirmed_email_route_def)
  have already: "confirmed_email_route svc t token d = (Inr ''Your email is already confirmed'', d)"
    if "get_email_from_token svc t token = Inr e" "get_user_by_email e d = Some u" "confirmed u"
    for u d t
    using that by (simp add: confirmed_email_route_def)
  have first: "\<exists>db'. confirmed_email_route svc now token db = (Inr ''Email confirmed'', db')
               \<and> get_user_by_email e db' = Some (u\<lparr>confirmed := True\<rparr>)
               \<and> contacts db' = contacts db
               \<and> (\<forall>later. get_email_from_token svc later token = Inr e \<longrightarrow>
                     confirmed_email_route svc later token db'
                       = (Inr ''Your email is already confirmed'', db'))"
    if u: "get_user_by_email e db = Some u" and n: "\<not> confirmed u" for u
  proof -
    have run: "confirmed_email_route svc now token db = (Inr ''Email confirmed'', confirmed_email e db)"
      using u n tok by (simp add: confirmed_email_route_def)
    have stored: "get_user_by_email e (confirmed_email e db) = Some (u\<lparr>confirmed := True\<rparr>)"
      by (rule get_user_after_confirmed_email[OF u])
    have again: "\<forall>later. get_email_from_token svc later token = Inr e \<longrightarrow>
        confirmed_email_route svc later token (confirmed_email e db)
          = (Inr ''Your email is already confirmed'', confirmed_email e db)"
    proof (intro allI impI)
      fix later assume "get_email_from_token svc later token = Inr e"
      then show "confirmed_email_route svc later token (confirmed_email e db)
          = (Inr ''Your email is already confirmed'', confirmed_email e db)"
        using stored by (rule already) simp
    qed
    have c: "contacts (confirmed_email e db) = contacts db"
      by (simp add: confirmed_email_def)
    from run stored c again show ?thesis by (intro exI[of _ "confirmed_email e db"] conjI)
  qed
  from absent already[OF tok, of db] first show ?thesis by blast
qed

lemma example_confirm_token:
  "get_email_from_token example_service 1 ''confirm:carol@example.com:'' = Inr ''carol@example.com''"
  "get_email_from_token example_service 2 ''confirm:carol@example.com:'' = Inr ''carol@example.com''"
  "get_email_from_token example_service 4 ''confirm:carol@example.com:''
     = Inl (HTTPException 422 (Detail ''Invalid token for email verification''))"
  by (simp_all add: example_service_def issued_at_def)

theorem confirmed_email_idempotent_witness:
  "\<exists>db'. confirmed_email_route example_service 1 ''confirm:carol@example.com:'' three_users
            = (Inr ''Email confirmed'', db')
     \<and> get_user_by_email ''carol@example.com'' db' = Some (carol\<lparr>confirmed := True\<rparr>)
     \<and> confirmed_email_route example_service 2 ''confirm:carol@example.com:'' db'
         = (Inr ''Your email is already confirmed'', db')"
proof -
  note th = confirmed_email_idempotent[of example_service 1 "''confirm:carol@example.com:''"
      "''carol@example.com''" three_users, OF example_confirm_token(1)]
  have n: "\<not> confirmed carol" by (simp add: carol_def)
  have "\<exists>db'. confirmed_email_route example_service 1 ''confirm:carol@example.com:'' three_users
            = (Inr ''Email confirmed'', db')
     \<and> get_user_by_email ''carol@example.com'' db' = Some (carol\<lparr>confirmed := True\<rparr>)
     \<and> contacts db' = contacts three_users
     \<and> (\<forall>later. get_email_from_token example_service later ''confirm:carol@example.com:''
                    = Inr ''carol@example.com'' \<longrightarrow>
           confirmed_email_route example_service later ''confirm:carol@example.com:'' db'
             = (Inr ''Your email is already confirmed'', db'))"
    by (rule mp[OF spec[OF conjunct2[OF conjunct2[OF th]], of carol]])
       (intro conjI example_lookups(2) n)
  then obtain db' where a: "confirmed_email_route example_service 1 ''confirm:carol@example.com:'' three_users
            = (Inr ''Email confirmed'', db')"
    and b: "get_user_by_email ''carol@example.com'' db' = Some (carol\<lparr>confirmed := True\<rparr>)"
    and l: "\<forall>later. get_email_from_token example_service later ''confirm:carol@example.com:''
                    = Inr ''carol@example.com'' \<longrightarrow>
           confirmed_email_route example_service later ''confirm:carol@example.com:'' db'
             = (Inr ''Your email is already confirmed'', db')"
    by (elim exE conjE) (rule that, assumption+)
  have c: "confirmed_email_route example_service 2 ''confirm:carol@example.com:'' db'
         = (Inr ''Your email is already confirmed'', db')"
    by (rule mp[OF spec[OF l, of 2] example_confirm_token(2)])
  show ?thesis by (rule exI[of _ db'], intro conjI) (fact a, fact b, fact c)
qed

section \<open>Request of a confirmation email\<close>

text \<open>
  Claim C9. When no principal has the email of the request, \<open>request_email\<close> reads
  \<open>confirmed\<close> of \<open>None\<close> and raises \<open>AttributeError\<close>: no message is returned. The reply
  ``Check your email for confirmation.'' is produced only for an existing, unconfirmed
  principal, together with the task that sends the email: the branch of the guard
  \<open>if user\<close> for an absent user (the reply with no task queued) is never taken.
\<close>

theorem request_email_guard_unreachable:
  "(get_user_by_email e db = None \<longrightarrow> request_email e base_url db = (Inl AttributeError, db))
   \<and> (\<forall>tasks. fst (request_email e base_url db)
                  = Inr (''Check your email for confirmation.'', tasks) \<longrightarrow>
         (\<exists>u. get_user_by_email e db = Some u \<and> \<not> confirmed u
              \<and> tasks = [send_email (User.email u) (username u) base_url]))
   \<and> fst (request_email e base_url db) \<noteq> Inr (''Check your email for confirmation.'', [])
   \<and> (\<forall>u. get_user_by_email e db = Some u \<and> \<not> confirmed u \<longrightarrow>
         request_email e base_url db
           = (Inr (''Check your email for confirmation.'',
                   [send_email (User.email u) (username u) base_url]), db))
   \<and> (\<forall>u. get_user_by_email e db = Some u \<and> confirmed u \<longrightarrow>
         request_email e base_url db = (Inr (''Your email is already confirmed'', []), db))"
  by (cases "get_user_by_email e db") (simp_all add: request_email_def Let_def)

theorem request_email_guard_unreachable_witness:
  "request_email ''nobody@example.com'' ''http://localhost:8000/'' three_users
     = (Inl AttributeError, three_users)
   \<and> request_email ''carol@example.com'' ''http://localhost:8000/'' three_users
     = (Inr (''Check your email for confirmation.'',
             [send_email ''carol@example.com'' ''carol'' ''http://localhost:8000/'']), three_users)"
proof -
  note t1 = request_email_guard_unreachable[of "''nobody@example.com''" three_users
      "''http://localhost:8000/''"]
  note t2 = request_email_guard_unreachable[of "''carol@example.com''" three_users
      "''http://localhost:8000/''"]
  have n: "\<not> confirmed carol" by (simp add: carol_def)
  have f: "User.email carol = ''carol@example.com''" "username carol = ''carol''"
    by (simp_all add: carol_def)
  have a: "request_email ''nobody@example.com'' ''http://localhost:8000/'' three_users
     = (Inl AttributeError, three_users)"
    by (rule mp[OF conjunct1[OF t1] example_lookups(3)])
  have "request_email ''carol@example.com'' ''http://localhost:8000/'' three_users
     = (Inr (''Check your email for confirmation.'',
             [send_email (User.email carol) (username carol) ''http://localhost:8000/'']), three_users)"
    by (rule mp[OF spec[OF conjunct1[OF conjunct2[OF conjunct2[OF conjunct2[OF t2]]]], of carol]])
       (intro conjI example_lookups(2) n)
  then have b: "request_email ''carol@example.com'' ''http://localhost:8000/'' three_users
     = (Inr (''Check your email for confirmation.'',
             [send_email ''carol@example.com'' ''carol'' ''http://localhost:8000/'']), three_users)"
    unfolding f .
  from a b show ?thesis by (rule conjI)
qed

section \<open>The birthday window\<close>

lemma date_eq_iff:
  "(a = b) \<longleftrightarrow> (year a = year b \<and> month a = month b \<and> day a = day b)" for a b :: date
  by (cases a, cases b) auto

lemma date_le_refl: "date_le a a"
  by (simp add: date_le_def)

lemma date_le_trans: "date_le a b \<Longrightarrow> date_le b c \<Longrightarrow> date_le a c"
  by (auto simp: date_le_def)

lemma date_le_antisym: "date_le a b \<Longrightarrow> date_le b a \<Longrightarrow> a = b"
  by (auto simp: date_le_def date_eq_iff)

lemma days_in_month_ge: "28 \<le> days_in_month y m"
  by (simp add: days_in_month_def)

lemma valid_next_day: "valid_date d \<Longrightarrow> valid_date (next_day d)"
  using days_in_month_ge[of "year d" "Suc (month d)"] days_in_month_ge[of "Suc (year d)" 1]
  by (auto simp: valid_date_def next_day_def)

lemma date_le_next_day: "date_le d (next_day d)"
  by (auto simp: date_le_def next_day_def)

lemma next_day_least:
  assumes "valid_date d" "valid_date b" "date_le d b" "b \<noteq> d"
  shows "date_le (next_day d) b"
  using assms by (auto simp: valid_date_def date_le_def next_day_def date_eq_iff)

lemma valid_add_days: "valid_date d \<Longrightarrow> valid_date (add_days n d)"
  by (induction n arbitrary: d) (simp_all add: valid_next_day)

lemma date_le_add_days: "date_le d (add_days n d)"
proof (induction n arbitrary: d)
  case 0
  show ?case by (simp add: date_le_refl)
next
  case (Suc n)
  have "date_le d (next_day d)" by (rule date_le_next_day)
  also have "date_le (next_day d) (add_days n (next_day d))" by (rule Suc.IH)
  finally (date_le_trans) show ?case by simp
qed

lemma window_iff:
  assumes "valid_date t" "valid_date b"
  shows "(date_le t b \<and> date_le b (add_days n t)) \<longleftrightarrow> (\<exists>k\<le>n. b = add_days k t)"
  using assms
proof (induction n arbitrary: t)
  case 0
  then show ?case by (auto simp: date_le_refl dest: date_le_antisym)
next
  case (Suc n)
  note IH = Suc.IH[OF valid_next_day[OF Suc.prems(1)] Suc.prems(2)]
  show ?case
  proof
    assume a: "date_le t b \<and> date_le b (add_days (Suc n) t)"
    show "\<exists>k\<le>Suc n. b = add_days k t"
    proof (cases "b = t")
      case True
      then have "b = add_days 0 t" by simp
      then show ?thesis by blast
    next
      case False
      with Suc.prems a have "date_le (next_day t) b" by (intro next_day_least) auto
      with a IH obtain k where "k \<le> n" "b = add_days k (next_day t)" by auto
      then have "Suc k \<le> Suc n" "b = add_days (Suc k) t" by simp_all
      then show ?thesis by blast
    qed
  next
    assume "\<exists>k\<le>Suc n. b = add_days k t"
    then obtain k where k: "k \<le> Suc n" "b = add_days k t" by blast
    show "date_le t b \<and> date_le b (add_days (Suc n) t)"
    proof (cases k)
      case 0
      with k show ?thesis using date_le_add_days[of t "Suc n"] by (simp add: date_le_refl)
    next
      case (Suc j)
      with k have "j \<le> n" "b = add_days j (next_day t)" by simp_all
      with IH have "date_le (next_day t) b" "date_le b (add_days n (next_day t))" by auto
      with date_le_trans[OF date_le_next_day[of t]] show ?thesis by simp
    qed
  qed
qed

lemma within_next_7_days_iff: "within_next_7_days today b \<longleftrightarrow> (\<exists>k\<le>7. b = add_days k today)"
proof -
  have "{0..<8::nat} = {k. k \<le> 7}" by auto
  then show ?thesis by (auto simp: within_next_7_days_def)
qed

lemma add_days_in_january:
  "month d = 1 \<Longrightarrow> day d + k \<le> 31 \<Longrightarrow> add_days k d = d\<lparr>day := day d + k\<rparr>"
proof (induction k arbitrary: d)
  case 0
  show ?case by simp
next
  case (Suc k)
  from Suc.prems have n: "next_day d = d\<lparr>day := day d + 1\<rparr>"
    by (simp add: next_day_def days_in_month_def)
  have "add_days k (next_day d) = (next_day d)\<lparr>day := day (next_day d) + k\<rparr>"
    using Suc.prems by (intro Suc.IH) (simp_all add: n)
  then show ?case by (simp add: n)
qed

lemma year_add_days:
  "n \<le> 30 \<Longrightarrow> year (add_days n d) \<le> Suc (year d)"
proof (induction n arbitrary: d)
  case 0
  show ?case by simp
next
  case (Suc n)
  show ?case
  proof (cases "year (next_day d) = year d")
    case True
    with Suc.IH[of "next_day d"] Suc.prems show ?thesis by simp
  next
    case False
    then have nd: "next_day d = d\<lparr>year := year d + 1, month := 1, day := 1\<rparr>"
      by (auto simp: next_day_def split: if_splits)
    have "add_days n (next_day d) = (next_day d)\<lparr>day := day (next_day d) + n\<rparr>"
      using Suc.prems by (intro add_days_in_january) (simp_all add: nd)
    then show ?thesis by (simp add: nd)
  qed
qed

lemma date_plus_days_in_range:
  "year d < 9999 \<Longrightarrow> n \<le> 30 \<Longrightarrow> date_plus_days d n = Inr (add_days n d)"
  using year_add_days[of n d] by (simp add: date_plus_days_def Let_def)

text \<open>
  Claim C6. For a current date before year 9999 and valid stored birthdays, the birthday
  search returns exactly the contacts whose birthday is today or one of the seven days
  after today (the date itself, year included, is compared). On 2024-06-01 a contact with
  birthday 2024-06-05 is returned and one with birthday 2024-06-10 is not.
\<close>

theorem search_by_birthday_window:
  assumes "valid_date today" and "year today < 9999"
    and "\<forall>c\<in>set (contacts db). valid_date (birthday c)"
  shows "search_by_birthday today db user
           = Inr (filter (\<lambda>c. within_next_7_days today (birthday c)) (contacts db))"
proof -
  have end_day: "date_plus_days today 7 = Inr (add_days 7 today)"
    using assms(2) by (rule date_plus_days_in_range) simp
  have "filter (\<lambda>c. date_le today (birthday c) \<and> date_le (birthday c) (add_days 7 today))
          (contacts db)
        = filter (\<lambda>c. within_next_7_days today (birthday c)) (contacts db)"
  proof (rule filter_cong[OF refl])
    fix c assume "c \<in> set (contacts db)"
    with assms(3) have "valid_date (birthday c)" by blast
    from window_iff[OF assms(1) this, of 7]
    show "(date_le today (birthday c) \<and> date_le (birthday c) (add_days 7 today))
            = within_next_7_days today (birthday c)"
      by (simp only: within_next_7_days_iff)
  qed
  then show ?thesis by (simp add: search_by_birthday_def end_day)
qed

lemma add_days_2024_06_01:
  "add_days 7 \<lparr>year = 2024, month = 6, day = 1\<rparr> = \<lparr>year = 2024, month = 6, day = 8\<rparr>"
  by (simp add: eval_nat_numeral next_day_def days_in_month_def is_leap_def)

lemma within_next_7_days_le:
  "valid_date t \<Longrightarrow> valid_date b \<Longrightarrow>
     within_next_7_days t b = (date_le t b \<and> date_le b (add_days 7 t))"
  by (simp only: within_next_7_days_iff window_iff)

theorem search_by_birthday_window_witness:
  "search_by_birthday \<lparr>year = 2024, month = 6, day = 1\<rparr> two_tenants alice = Inr [contact_of_alice]
   \<and> birthday contact_of_alice = \<lparr>year = 2024, month = 6, day = 5\<rparr>
   \<and> birthday contact_of_bob = \<lparr>year = 2024, month = 6, day = 10\<rparr>
   \<and> contacts two_tenants = [contact_of_alice, contact_of_bob]"
proof -
  let ?today = "\<lparr>year = 2024, month = 6, day = 1\<rparr>"
  have v: "valid_date ?today" "year ?today < 9999"
    by (simp_all add: valid_date_def days_in_month_def)
  have c: "contacts two_tenants = [contact_of_alice, contact_of_bob]"
    by (simp add: two_tenants_def)
  have ba: "birthday contact_of_alice = \<lparr>year = 2024, month = 6, day = 5\<rparr>"
    and bb: "birthday contact_of_bob = \<lparr>year = 2024, month = 6, day = 10\<rparr>"
    by (simp_all add: contact_of_alice_def contact_of_bob_def)
  have vb: "valid_date \<lparr>year = 2024, month = 6, day = 5\<rparr>"
      "valid_date \<lparr>year = 2024, month = 6, day = 10\<rparr>"
    by (simp_all add: valid_date_def days_in_month_def)
  have all: "\<forall>c\<in>set (contacts two_tenants). valid_date (birthday c)"
    by (simp add: c ba bb vb)
  have inside: "within_next_7_days ?today \<lparr>year = 2024, month = 6, day = 5\<rparr>"
    unfolding within_next_7_days_le[OF v(1) vb(1)] add_days_2024_06_01
    by (simp add: date_le_def)
  have outside: "\<not> within_next_7_days ?today \<lparr>year = 2024, month = 6, day = 10\<rparr>"
    unfolding within_next_7_days_le[OF v(1) vb(2)] add_days_2024_06_01
    by (simp add: date_le_def)
  have "search_by_birthday ?today two_tenants alice = Inr [contact_of_alice]"
    unfolding search_by_birthday_window[OF v all, of alice] c
    using inside outside by (simp add: ba bb)
  with ba bb c show ?thesis by (intro conjI)
qed

end
